theory Spec2Isabelle
  imports Complex_Main "HOL-Library.Word"
begin

section \<open>The ESP32 controller (src/IOT/ESP32\_Environment\_Monitoring.c)\<close>

subsection \<open>Values\<close>

text \<open>
  A C \<open>float\<close> is not-a-number, an infinity, or a finite value. Every finite float is a
  real number, and the only float operations of the sketch are \<open>isnan\<close> and comparisons
  against the double constants 30.0 and 70.0. The promotion of a float to double is
  exact, and so is the comparison: it is the comparison of the two real numbers, false
  whenever the float is not-a-number. \<open>Fin\<close> carries any real, a superset of the finite
  floats.
\<close>

datatype cfloat = NaN | NegInf | Fin real | PosInf

fun isnan :: "cfloat \<Rightarrow> bool" where
  "isnan NaN = True"
| "isnan NegInf = False"
| "isnan (Fin x) = False"
| "isnan PosInf = False"

text \<open>\<open>x >= c\<close> and \<open>x < c\<close> for a float \<open>x\<close> and a finite constant \<open>c\<close>.\<close>

fun float_ge :: "cfloat \<Rightarrow> real \<Rightarrow> bool" where
  "float_ge NaN c = False"
| "float_ge NegInf c = False"
| "float_ge (Fin x) c = (c \<le> x)"
| "float_ge PosInf c = True"

fun float_lt :: "cfloat \<Rightarrow> real \<Rightarrow> bool" where
  "float_lt NaN c = False"
| "float_lt NegInf c = True"
| "float_lt (Fin x) c = (x < c)"
| "float_lt PosInf c = False"

datatype level = LOW | HIGH

subsection \<open>Pin definitions, thresholds, timing (lines 11-31)\<close>

definition LIGHT_PIN :: nat where "LIGHT_PIN = 34"
definition FAN_RELAY_PIN :: nat where "FAN_RELAY_PIN = 26"
definition LIGHT_RELAY_PIN :: nat where "LIGHT_RELAY_PIN = 27"
definition BUZZER_PIN :: nat where "BUZZER_PIN = 25"
definition FAN_LED_PIN :: nat where "FAN_LED_PIN = 32"
definition LIGHT_LED_PIN :: nat where "LIGHT_LED_PIN = 33"
definition ALARM_LED_PIN :: nat where "ALARM_LED_PIN = 14"

definition TEMP_HIGH :: real where "TEMP_HIGH = 30"
definition HUMIDITY_HIGH :: real where "HUMIDITY_HIGH = 70"
definition LIGHT_LOW :: int where "LIGHT_LOW = 500"

definition SENSOR_READ_INTERVAL :: nat where "SENSOR_READ_INTERVAL = 2000"

subsection \<open>The board: output pins, the upload cursor, and what was emitted\<close>

text \<open>The nine arguments of a call of \<open>sendDataToServer\<close> (lines 281-291).\<close>

record telemetry =
  tm_temperature :: cfloat
  tm_humidity :: cfloat
  tm_light_intensity :: int
  tm_fan :: bool
  tm_fan_led :: bool
  tm_light :: bool
  tm_light_led :: bool
  tm_alram_led :: bool
  tm_buzzer :: bool

text \<open>
  Every output call of the sketch is an event: a pin write, a call on \<open>Serial\<close>, a call
  on \<open>lcd\<close>, a call of \<open>sendDataToServer\<close>, a \<open>delay\<close>. Numbers printed with a
  precision keep the value and the precision, as the call receives them.
\<close>

datatype event =
    DigitalWrite nat level
  | SerialPrint string
  | SerialPrintFloat cfloat nat
  | SerialPrintln string
  | SerialPrintlnInt int
  | LcdClear
  | LcdSetCursor nat nat
  | LcdPrint string
  | LcdPrintFloat cfloat nat
  | LcdPrintInt int
  | SendData telemetry
  | Delay nat

text \<open>
  \<open>pins\<close> is the level last written to each GPIO, \<open>lastSendTime\<close> the global of that
  name (an \<open>unsigned long\<close>, 32 bits on the ESP32; it is declared outside the excerpt),
  \<open>trace\<close> the events so far, oldest first.
\<close>

record board =
  pins :: "nat \<Rightarrow> level"
  lastSendTime :: "32 word"
  trace :: "event list"

text \<open>What the hardware and the network answer during one pass of \<open>loop\<close>.\<close>

record tick_input =
  dht_humidity :: cfloat
  dht_temperature :: cfloat
  adc_light :: int
  millis_now :: "32 word"
  send_ok :: bool

definition emit :: "event \<Rightarrow> board \<Rightarrow> board" where
  "emit e s = s\<lparr>trace := trace s @ [e]\<rparr>"

definition digitalWrite :: "nat \<Rightarrow> level \<Rightarrow> board \<Rightarrow> board" where
  "digitalWrite pin v s = s\<lparr>pins := (pins s)(pin := v), trace := trace s @ [DigitalWrite pin v]\<rparr>"

subsection \<open>LED control functions (lines 38-51)\<close>

definition setFanLED :: "bool \<Rightarrow> board \<Rightarrow> board" where
  "setFanLED state s = digitalWrite FAN_LED_PIN (if state then HIGH else LOW) s"

definition setLightLED :: "bool \<Rightarrow> board \<Rightarrow> board" where
  "setLightLED state s = digitalWrite LIGHT_LED_PIN (if state then HIGH else LOW) s"

definition setAlarmLED :: "bool \<Rightarrow> board \<Rightarrow> board" where
  "setAlarmLED state s = digitalWrite ALARM_LED_PIN (if state then HIGH else LOW) s"

subsection \<open>Relay and actuator control functions (lines 54-76)\<close>

definition controlFan :: "bool \<Rightarrow> board \<Rightarrow> board" where
  "controlFan state s =
     (let s1 = digitalWrite FAN_RELAY_PIN (if state then LOW else HIGH) s;
          s2 = setFanLED state s1;
          s3 = emit (SerialPrint ''FAN: '') s2
      in emit (SerialPrintln (if state then ''ON'' else ''OFF'')) s3)"

definition controlLight :: "bool \<Rightarrow> board \<Rightarrow> board" where
  "controlLight state s =
     (let s1 = digitalWrite LIGHT_RELAY_PIN (if state then LOW else HIGH) s;
          s2 = setLightLED state s1;
          s3 = emit (SerialPrint ''LIGHT: '') s2
      in emit (SerialPrintln (if state then ''ON'' else ''OFF'')) s3)"

definition controlBuzzer :: "bool \<Rightarrow> board \<Rightarrow> board" where
  "controlBuzzer state s =
     (let s1 = digitalWrite BUZZER_PIN (if state then HIGH else LOW) s;
          s2 = setAlarmLED state s1;
          s3 = emit (SerialPrint ''BUZZER: '') s2
      in emit (SerialPrintln (if state then ''ON'' else ''OFF'')) s3)"

subsection \<open>Sensor reading functions (lines 79-114)\<close>

text \<open>
  \<open>readDHT22\<close> writes both reference parameters before it tests them; the model returns
  the success flag with the two values written.
\<close>

definition readDHT22 :: "tick_input \<Rightarrow> board \<Rightarrow> (bool \<times> cfloat \<times> cfloat) \<times> board" where
  "readDHT22 inp s =
     (let humidity = dht_humidity inp;
          temperature = dht_temperature inp
      in if isnan humidity \<or> isnan temperature
         then ((False, temperature, humidity),
               emit (SerialPrintln ''ERROR: Failed to read from DHT22 sensor!'') s)
         else ((True, temperature, humidity), s))"

definition readLightLevel :: "tick_input \<Rightarrow> int" where
  "readLightLevel inp = adc_light inp"

definition displayOnLCD :: "cfloat \<Rightarrow> cfloat \<Rightarrow> int \<Rightarrow> board \<Rightarrow> board" where
  "displayOnLCD temp humidity light s =
     (let s1 = emit LcdClear s;
          s2 = emit (LcdSetCursor 0 0) s1;
          s3 = emit (LcdPrint ''T:'') s2;
          s4 = emit (LcdPrintFloat temp 1) s3;
          s5 = emit (LcdPrint ''C H:'') s4;
          s6 = emit (LcdPrintFloat humidity 1) s5;
          s7 = emit (LcdPrint ''%'') s6;
          s8 = emit (LcdSetCursor 0 1) s7;
          s9 = emit (LcdPrint ''Light: '') s8
      in emit (LcdPrintInt light) s9)"

subsection \<open>Telemetry\<close>

text \<open>
  Modelled from the spec: \<open>sendDataToServer\<close> is called by \<open>loop\<close> but is not part of
  the excerpt. By section 4.4 of the specification a send attempt transmits one
  structured record over the network link and reports success or failure; the model
  records the attempt with the record it was given and returns the answer of the network.
\<close>

definition sendDataToServer :: "tick_input \<Rightarrow> telemetry \<Rightarrow> board \<Rightarrow> bool \<times> board" where
  "sendDataToServer inp r s = (send_ok inp, emit (SendData r) s)"

subsection \<open>Main loop (lines 196-322)\<close>

text \<open>The six status locals of \<open>loop\<close>.\<close>

record actuators =
  fanStatus :: bool
  fanLedStatus :: bool
  lightStatus :: bool
  lightLedStatus :: bool
  alarmLedStatus :: bool
  buzzerStatus :: bool

text \<open>
  One pass of \<open>loop\<close>. \<open>DATA_SEND_INTERVAL\<close> is a macro defined outside the excerpt and
  is a parameter, converted to \<open>unsigned long\<close> as the comparison does. The C function
  returns nothing; the model returns the final values of the six status locals (all
  initialised to \<open>false\<close>) beside the board. The bytes of the two non-ASCII string
  literals are their UTF-8 encoding.
\<close>

definition loop :: "32 word \<Rightarrow> tick_input \<Rightarrow> board \<Rightarrow> actuators \<times> board" where
  "loop DATA_SEND_INTERVAL inp s0 =
     (let ((sensorSuccess, temperature, humidity), s1) = readDHT22 inp s0
      in if sensorSuccess then
           let lightLevel = readLightLevel inp;
               s2 = displayOnLCD temperature humidity lightLevel s1;
               s3 = emit (SerialPrint ''Temp: '') s2;
               s4 = emit (SerialPrintFloat temperature 1) s3;
               s5 = emit (SerialPrint ([CHR 0xC2, CHR 0xB0] @ ''C, Humidity: '')) s4;
               s6 = emit (SerialPrintFloat humidity 1) s5;
               s7 = emit (SerialPrint ''%, Light: '') s6;
               s8 = emit (SerialPrintlnInt lightLevel) s7;
               (fanStatus, fanLedStatus, s9) =
                 (if float_ge temperature TEMP_HIGH
                  then (True, True, controlFan True s8)
                  else if float_lt temperature TEMP_HIGH
                       then (False, False, controlFan False s8)
                       else (False, False, s8));
               (lightStatus, lightLedStatus, s10) =
                 (if lightLevel < LIGHT_LOW
                  then (True, True, controlLight True s9)
                  else (False, False, controlLight False s9));
               (buzzerStatus, alarmLedStatus, s11) =
                 (if (float_ge temperature TEMP_HIGH \<or> float_ge humidity HUMIDITY_HIGH)
                     \<and> lightLevel < LIGHT_LOW
                  then (True, True, controlBuzzer True s10)
                  else (False, False, controlBuzzer False s10));
               currentTime = millis_now inp;
               s12 =
                 (if currentTime - lastSendTime s11 \<ge> DATA_SEND_INTERVAL
                  then
                    let (sendSuccess, s11a) =
                          sendDataToServer inp
                            \<lparr>tm_temperature = temperature, tm_humidity = humidity,
                             tm_light_intensity = lightLevel,
                             tm_fan = fanStatus, tm_fan_led = fanLedStatus,
                             tm_light = lightStatus, tm_light_led = lightLedStatus,
                             tm_alram_led = alarmLedStatus, tm_buzzer = buzzerStatus\<rparr> s11;
                        s11b = emit (LcdSetCursor 15 1) s11a;
                        s11c = emit (LcdPrint (if sendSuccess then ''*'' else ''X'')) s11b
                    in s11c\<lparr>lastSendTime := currentTime\<rparr>
                  else s11)
           in (\<lparr>fanStatus = fanStatus, fanLedStatus = fanLedStatus,
                lightStatus = lightStatus, lightLedStatus = lightLedStatus,
                alarmLedStatus = alarmLedStatus, buzzerStatus = buzzerStatus\<rparr>,
               emit (Delay SENSOR_READ_INTERVAL) s12)
         else
           let s2 = emit (SerialPrintln ([CHR 0xE2, CHR 0x9A, CHR 0xA0]
                            @ '' Sensor read failed. NOT sending data to server.'')) s1;
               s3 = emit LcdClear s2;
               s4 = emit (LcdSetCursor 0 0) s3;
               s5 = emit (LcdPrint ''Sensor Error!'') s4;
               s6 = emit (LcdSetCursor 0 1) s5;
               s7 = emit (LcdPrint ''No data sent'') s6
           in (\<lparr>fanStatus = False, fanLedStatus = False,
                lightStatus = False, lightLedStatus = False,
                alarmLedStatus = False, buzzerStatus = False\<rparr>,
               emit (Delay SENSOR_READ_INTERVAL) s7))"

text \<open>
  The Arduino core calls \<open>loop\<close> again each time it returns: a run over the answers
  of successive passes.
\<close>

fun run :: "32 word \<Rightarrow> tick_input list \<Rightarrow> board \<Rightarrow> board" where
  "run I [] s = s"
| "run I (inp # inps) s = run I inps (snd (loop I inp s))"

subsection \<open>Observations on a trace\<close>

fun is_send :: "event \<Rightarrow> bool" where
  "is_send (SendData r) = True"
| "is_send _ = False"

fun is_write :: "event \<Rightarrow> bool" where
  "is_write (DigitalWrite p v) = True"
| "is_write _ = False"

fun is_println :: "event \<Rightarrow> bool" where
  "is_println (SerialPrintln str) = True"
| "is_println (SerialPrintlnInt n) = True"
| "is_println _ = False"

definition net_attempts :: "board \<Rightarrow> nat" where
  "net_attempts s = length (filter is_send (trace s))"

text \<open>The events that one pass of \<open>loop\<close> adds to the trace.\<close>

definition tick_events :: "32 word \<Rightarrow> tick_input \<Rightarrow> board \<Rightarrow> event list" where
  "tick_events I inp s = drop (length (trace s)) (trace (snd (loop I inp s)))"

text \<open>
  A board for the examples: the pin levels that \<open>setup\<close> leaves (lines 160-179: both
  relay lines HIGH, that is off; buzzer and indicator LEDs LOW), nothing emitted yet,
  and the upload cursor at 0.
\<close>

definition board0 :: board where
  "board0 = \<lparr>pins = (\<lambda>p. if p = FAN_RELAY_PIN \<or> p = LIGHT_RELAY_PIN then HIGH else LOW),
             lastSendTime = 0, trace = []\<rparr>"

section \<open>The ingestion service (src/backend/server.js)\<close>

subsection \<open>Values\<close>

text \<open>
  JSON values. An object is the list of its own enumerable properties in creation
  order; a property is written with \<open>set_prop\<close>, which overwrites the value of an
  existing key in place and appends a new key, as property definition does in
  JavaScript.
\<close>

datatype json =
    JNull
  | JBool bool
  | JNum real
  | JStr string
  | JArr "json list"
  | JObj "(string \<times> json) list"

type_synonym props = "(string \<times> json) list"

fun set_prop :: "string \<Rightarrow> json \<Rightarrow> props \<Rightarrow> props" where
  "set_prop k v [] = [(k, v)]"
| "set_prop k v ((k', v') # ps) =
     (if k = k' then (k, v) # ps else (k', v') # set_prop k v ps)"

text \<open>\<open>{ ...src }\<close> inside an object literal whose properties so far are \<open>obj\<close>.\<close>

fun spread :: "props \<Rightarrow> props \<Rightarrow> props" where
  "spread [] obj = obj"
| "spread ((k, v) # src) obj = spread src (set_prop k v obj)"

text \<open>An error object: its \<open>name\<close> and its \<open>message\<close>.\<close>

datatype js_error = JsError (err_name: string) (err_message: string)

text \<open>What \<open>await\<close> of a promise gives: the value, or the rejection thrown at the \<open>await\<close>.\<close>

datatype 'a settled = Fulfilled 'a | RejectedWith js_error

text \<open>The \<open>{ data, error }\<close> object of the data-store client; \<open>error\<close> is null on success.\<close>

record sb_response =
  sb_data :: json
  sb_error :: "js_error option"

datatype console_entry = LogError js_error | LogString string

text \<open>
  The response object: \<open>res.status(c)\<close> sets the status code (200 until then),
  \<open>res.json(v)\<close> sends \<open>v\<close> as the body. \<open>sent = None\<close>: the handler has sent nothing.
\<close>

record response =
  status_code :: nat
  sent :: "json option"

definition res0 :: response where
  "res0 = \<lparr>status_code = 200, sent = None\<rparr>"

definition res_status :: "nat \<Rightarrow> response \<Rightarrow> response" where
  "res_status c res = res\<lparr>status_code := c\<rparr>"

definition res_json :: "json \<Rightarrow> response \<Rightarrow> response" where
  "res_json v res = res\<lparr>sent := Some v\<rparr>"

text \<open>
  What a call of an \<open>async\<close> handler leaves: the response, the console output, and the
  error its promise was rejected with, if it was (an exception that left the handler).
\<close>

record outcome =
  response :: response
  console :: "console_entry list"
  rejected :: "js_error option"

subsection \<open>Identifier resolution\<close>

text \<open>
  A binding visible at a point of the program holds an error object or something else
  (a function, a module, the request). The module scope of server.js (lines 1-14) and
  the parameters of a handler; an identifier bound nowhere on the scope chain raises a
  ReferenceError when it is read.
\<close>

datatype binding = ErrVal js_error | OtherVal

definition module_scope :: "(string \<times> binding) list" where
  "module_scope =
     [(''express'', OtherVal), (''Pool'', OtherVal), (''config'', OtherVal),
      (''supabase'', OtherVal), (''v4'', OtherVal), (''app'', OtherVal), (''pool'', OtherVal)]"

definition handler_scope :: "(string \<times> binding) list" where
  "handler_scope = [(''req'', OtherVal), (''res'', OtherVal)] @ module_scope"

definition resolve :: "(string \<times> binding) list \<Rightarrow> string \<Rightarrow> js_error + binding" where
  "resolve scope x =
     (case map_of scope x of
        Some b \<Rightarrow> Inr b
      | None \<Rightarrow> Inl (JsError ''ReferenceError'' (x @ '' is not defined'')))"

text \<open>
  \<open>{ error: v.message }\<close> as \<open>res.json\<close> serialises it: a property whose value is
  \<open>undefined\<close> is left out.
\<close>

fun error_body :: "binding \<Rightarrow> json" where
  "error_body (ErrVal e) = JObj [(''error'', JStr (err_message e))]"
| "error_body OtherVal = JObj []"

text \<open>
  The body of both catch clauses (lines 34 and 49) is the same text,
  \<open>res.status(500).json({ error: err.message })\<close>; the clauses differ in the name
  their parameter binds the thrown value to (\<open>err\<close> at line 33, \<open>error\<close> at line 48).
  \<open>res.status(500)\<close> is evaluated before the argument of \<open>json\<close>.
\<close>

definition catch_clause :: "string \<Rightarrow> js_error \<Rightarrow> response \<Rightarrow> response \<times> js_error option" where
  "catch_clause param thrown res =
     (let res1 = res_status 500 res
      in case resolve ((param, ErrVal thrown) # handler_scope) ''err'' of
           Inl e \<Rightarrow> (res1, Some e)
         | Inr b \<Rightarrow> (res_json (error_body b) res1, None))"

subsection \<open>POST /sensor-data (lines 20-38)\<close>

text \<open>
  The object \<open>info\<close> of lines 21-25, from the result of \<open>v4()\<close>, the request body and
  the result of \<open>new Date().toISOString()\<close>.
\<close>

definition info :: "string \<Rightarrow> props \<Rightarrow> string \<Rightarrow> props" where
  "info uuid body now =
     set_prop ''created_at'' (JStr now) (spread body (set_prop ''id'' (JStr uuid) []))"

text \<open>
  The handler. \<open>insert_row\<close> is the data store: what
  \<open>await supabase.from("data").insert(info).select()\<close> gives for a row.
\<close>

definition post_sensor_data ::
  "string \<Rightarrow> string \<Rightarrow> (props \<Rightarrow> sb_response settled) \<Rightarrow> props \<Rightarrow> outcome" where
  "post_sensor_data uuid now insert_row body =
     (let row = info uuid body now;
          (log, tried) =
            (case insert_row row of
               RejectedWith e \<Rightarrow> ([], Inl e)
             | Fulfilled r \<Rightarrow>
                 (case sb_error r of
                    Some e \<Rightarrow> ([LogError e], Inl e)
                  | None \<Rightarrow>
                      ([], Inr (res_json (JObj [(''success'', JBool True),
                                  (''message'', JStr ''Successfully Inserted data''),
                                  (''data'', sb_data r)]) res0))));
          (res, rej) =
            (case tried of
               Inr res \<Rightarrow> (res, None)
             | Inl err \<Rightarrow> catch_clause ''err'' err res0)
      in \<lparr>response = res, console = log @ [LogString ''Data inserted''], rejected = rej\<rparr>)"

subsection \<open>GET /data (lines 40-51)\<close>

definition get_data :: "sb_response settled \<Rightarrow> outcome" where
  "get_data selected =
     (let (log, tried) =
            (case selected of
               RejectedWith e \<Rightarrow> ([], Inl e)
             | Fulfilled r \<Rightarrow>
                 (case sb_error r of
                    Some e \<Rightarrow> ([LogError e], Inl e)
                  | None \<Rightarrow>
                      ([], Inr (res_json (JObj [(''success'', JBool True),
                                  (''message'', JStr ''Successfully Fetched data''),
                                  (''data'', sb_data r)]) res0))));
          (res, rej) =
            (case tried of
               Inr res \<Rightarrow> (res, None)
             | Inl error \<Rightarrow> catch_clause ''error'' error res0)
      in \<lparr>response = res, console = log, rejected = rej\<rparr>)"

section \<open>Properties of the controller\<close>

subsection \<open>What the primitives change\<close>

lemma emit_simps:
  "pins (emit e s) = pins s"
  "lastSendTime (emit e s) = lastSendTime s"
  "trace (emit e s) = trace s @ [e]"
  by (simp_all add: emit_def)

lemma digitalWrite_simps:
  "pins (digitalWrite p v s) = (pins s)(p := v)"
  "lastSendTime (digitalWrite p v s) = lastSendTime s"
  "trace (digitalWrite p v s) = trace s @ [DigitalWrite p v]"
  by (simp_all add: digitalWrite_def)

lemma controlFan_simps:
  "pins (controlFan b s) =
     (pins s)(FAN_RELAY_PIN := (if b then LOW else HIGH), FAN_LED_PIN := (if b then HIGH else LOW))"
  "lastSendTime (controlFan b s) = lastSendTime s"
  "trace (controlFan b s) = trace s @
     [DigitalWrite FAN_RELAY_PIN (if b then LOW else HIGH),
      DigitalWrite FAN_LED_PIN (if b then HIGH else LOW),
      SerialPrint ''FAN: '', SerialPrintln (if b then ''ON'' else ''OFF'')]"
  by (simp_all add: controlFan_def setFanLED_def Let_def emit_simps digitalWrite_simps)

lemma controlLight_simps:
  "pins (controlLight b s) =
     (pins s)(LIGHT_RELAY_PIN := (if b then LOW else HIGH), LIGHT_LED_PIN := (if b then HIGH else LOW))"
  "lastSendTime (controlLight b s) = lastSendTime s"
  "trace (controlLight b s) = trace s @
     [DigitalWrite LIGHT_RELAY_PIN (if b then LOW else HIGH),
      DigitalWrite LIGHT_LED_PIN (if b then HIGH else LOW),
      SerialPrint ''LIGHT: '', SerialPrintln (if b then ''ON'' else ''OFF'')]"
  by (simp_all add: controlLight_def setLightLED_def Let_def emit_simps digitalWrite_simps)

lemma controlBuzzer_simps:
  "pins (controlBuzzer b s) =
     (pins s)(BUZZER_PIN := (if b then HIGH else LOW), ALARM_LED_PIN := (if b then HIGH else LOW))"
  "lastSendTime (controlBuzzer b s) = lastSendTime s"
  "trace (controlBuzzer b s) = trace s @
     [DigitalWrite BUZZER_PIN (if b then HIGH else LOW),
      DigitalWrite ALARM_LED_PIN (if b then HIGH else LOW),
      SerialPrint ''BUZZER: '', SerialPrintln (if b then ''ON'' else ''OFF'')]"
  by (simp_all add: controlBuzzer_def setAlarmLED_def Let_def emit_simps digitalWrite_simps)

lemma displayOnLCD_simps:
  "pins (displayOnLCD t h l s) = pins s"
  "lastSendTime (displayOnLCD t h l s) = lastSendTime s"
  "trace (displayOnLCD t h l s) = trace s @
     [LcdClear, LcdSetCursor 0 0, LcdPrint ''T:'', LcdPrintFloat t 1, LcdPrint ''C H:'',
      LcdPrintFloat h 1, LcdPrint ''%'', LcdSetCursor 0 1, LcdPrint ''Light: '', LcdPrintInt l]"
  by (simp_all add: displayOnLCD_def Let_def emit_simps)

lemma float_lt_iff: "\<not> isnan t \<Longrightarrow> float_lt t c = (\<not> float_ge t c)"
  by (cases t) auto

lemma collapse:
  "(if c then (True, True, controlFan True s) else (False, False, controlFan False s)) = (c, c, controlFan c s)"
  "(if c then (True, True, controlLight True s) else (False, False, controlLight False s)) = (c, c, controlLight c s)"
  "(if c then (True, True, controlBuzzer True s) else (False, False, controlBuzzer False s)) = (c, c, controlBuzzer c s)"
  by simp_all

lemma readDHT22_valid:
  "\<not> isnan (dht_humidity inp) \<Longrightarrow> \<not> isnan (dht_temperature inp) \<Longrightarrow>
   readDHT22 inp s = ((True, dht_temperature inp, dht_humidity inp), s)"
  by (simp add: readDHT22_def)

lemma readDHT22_invalid:
  "isnan (dht_humidity inp) \<or> isnan (dht_temperature inp) \<Longrightarrow>
   readDHT22 inp s = ((False, dht_temperature inp, dht_humidity inp),
      emit (SerialPrintln ''ERROR: Failed to read from DHT22 sensor!'') s)"
  by (simp add: readDHT22_def)


lemma loop_valid_fst:
  assumes "\<not> isnan (dht_humidity inp)" "\<not> isnan (dht_temperature inp)"
  shows "fst (loop I inp s) =
     \<lparr>fanStatus = float_ge (dht_temperature inp) TEMP_HIGH,
      fanLedStatus = float_ge (dht_temperature inp) TEMP_HIGH,
      lightStatus = adc_light inp < LIGHT_LOW,
      lightLedStatus = adc_light inp < LIGHT_LOW,
      alarmLedStatus = ((float_ge (dht_temperature inp) TEMP_HIGH \<or> float_ge (dht_humidity inp) HUMIDITY_HIGH) \<and> adc_light inp < LIGHT_LOW),
      buzzerStatus = ((float_ge (dht_temperature inp) TEMP_HIGH \<or> float_ge (dht_humidity inp) HUMIDITY_HIGH) \<and> adc_light inp < LIGHT_LOW)\<rparr>"
  using assms
  by (simp add: loop_def readDHT22_valid Let_def collapse split_def float_lt_iff readLightLevel_def)

lemma loop_valid_pins:
  assumes "\<not> isnan (dht_humidity inp)" "\<not> isnan (dht_temperature inp)"
  shows "pins (snd (loop I inp s)) =
     (pins s)(FAN_RELAY_PIN := (if float_ge (dht_temperature inp) TEMP_HIGH then LOW else HIGH),
              FAN_LED_PIN := (if float_ge (dht_temperature inp) TEMP_HIGH then HIGH else LOW),
              LIGHT_RELAY_PIN := (if adc_light inp < LIGHT_LOW then LOW else HIGH),
              LIGHT_LED_PIN := (if adc_light inp < LIGHT_LOW then HIGH else LOW),
              BUZZER_PIN := (if (float_ge (dht_temperature inp) TEMP_HIGH \<or> float_ge (dht_humidity inp) HUMIDITY_HIGH) \<and> adc_light inp < LIGHT_LOW then HIGH else LOW),
              ALARM_LED_PIN := (if (float_ge (dht_temperature inp) TEMP_HIGH \<or> float_ge (dht_humidity inp) HUMIDITY_HIGH) \<and> adc_light inp < LIGHT_LOW then HIGH else LOW))"
  using assms
  by (simp add: loop_def readDHT22_valid Let_def collapse split_def float_lt_iff readLightLevel_def
      sendDataToServer_def emit_simps controlFan_simps controlLight_simps controlBuzzer_simps displayOnLCD_simps)


lemma loop_valid_lastSendTime:
  assumes "\<not> isnan (dht_humidity inp)" "\<not> isnan (dht_temperature inp)"
  shows "lastSendTime (snd (loop I inp s)) =
     (if I \<le> millis_now inp - lastSendTime s then millis_now inp else lastSendTime s)"
  using assms
  by (simp add: loop_def readDHT22_valid Let_def collapse split_def
      sendDataToServer_def emit_simps controlFan_simps controlLight_simps controlBuzzer_simps displayOnLCD_simps)

lemma loop_valid_sends:
  assumes "\<not> isnan (dht_humidity inp)" "\<not> isnan (dht_temperature inp)"
  shows "length (filter is_send (tick_events I inp s)) =
     (if I \<le> millis_now inp - lastSendTime s then 1 else 0)"
  using assms
  by (simp add: tick_events_def loop_def readDHT22_valid Let_def collapse split_def
      sendDataToServer_def emit_simps controlFan_simps controlLight_simps controlBuzzer_simps displayOnLCD_simps)

lemma loop_invalid:
  assumes "isnan (dht_humidity inp) \<or> isnan (dht_temperature inp)"
  shows "loop I inp s =
     (\<lparr>fanStatus = False, fanLedStatus = False, lightStatus = False, lightLedStatus = False,
       alarmLedStatus = False, buzzerStatus = False\<rparr>,
      s\<lparr>trace := trace s @
        [SerialPrintln ''ERROR: Failed to read from DHT22 sensor!'',
         SerialPrintln ([CHR 0xE2, CHR 0x9A, CHR 0xA0] @ '' Sensor read failed. NOT sending data to server.''),
         LcdClear, LcdSetCursor 0 0, LcdPrint ''Sensor Error!'', LcdSetCursor 0 1,
         LcdPrint ''No data sent'', Delay 2000]\<rparr>)"
  using assms
  by (simp add: loop_def readDHT22_invalid Let_def emit_def SENSOR_READ_INTERVAL_def)

lemma trace_loop: "trace (snd (loop I inp s)) = trace s @ tick_events I inp s"
proof (cases "isnan (dht_humidity inp) \<or> isnan (dht_temperature inp)")
  case True
  then show ?thesis by (simp add: tick_events_def loop_invalid)
next
  case False
  then show ?thesis
  by (simp add: tick_events_def loop_def readDHT22_valid Let_def collapse split_def
      sendDataToServer_def emit_simps controlFan_simps controlLight_simps controlBuzzer_simps displayOnLCD_simps)
qed

lemma net_attempts_loop:
  "net_attempts (snd (loop I inp s)) = net_attempts s + length (filter is_send (tick_events I inp s))"
  by (simp add: net_attempts_def trace_loop)

lemmas thresholds = TEMP_HIGH_def HUMIDITY_HIGH_def LIGHT_LOW_def
lemmas pin_defs = FAN_RELAY_PIN_def LIGHT_RELAY_PIN_def BUZZER_PIN_def FAN_LED_PIN_def
  LIGHT_LED_PIN_def ALARM_LED_PIN_def

lemma loop_sends:
  "length (filter is_send (tick_events I inp s)) =
     (if \<not> isnan (dht_humidity inp) \<and> \<not> isnan (dht_temperature inp)
         \<and> I \<le> millis_now inp - lastSendTime s then 1 else 0)"
proof (cases "isnan (dht_humidity inp) \<or> isnan (dht_temperature inp)")
  case True
  then show ?thesis by (auto simp add: tick_events_def loop_invalid)
next
  case False
  then show ?thesis by (simp add: loop_valid_sends)
qed

lemma loop_no_send:
  "(filter is_send (tick_events I inp s) = []) =
     (isnan (dht_humidity inp) \<or> isnan (dht_temperature inp)
        \<or> millis_now inp - lastSendTime s < I)"
proof -
  have "(filter is_send (tick_events I inp s) = []) =
        (length (filter is_send (tick_events I inp s)) = 0)"
    by simp
  also have "\<dots> = (isnan (dht_humidity inp) \<or> isnan (dht_temperature inp)
        \<or> millis_now inp - lastSendTime s < I)"
    unfolding loop_sends by (auto simp add: not_le)
  finally show ?thesis .
qed

lemma loop_lastSendTime:
  "lastSendTime (snd (loop I inp s)) =
     (if \<not> isnan (dht_humidity inp) \<and> \<not> isnan (dht_temperature inp)
         \<and> I \<le> millis_now inp - lastSendTime s then millis_now inp else lastSendTime s)"
proof (cases "isnan (dht_humidity inp) \<or> isnan (dht_temperature inp)")
  case True
  then show ?thesis by (auto simp add: loop_invalid)
next
  case False
  then show ?thesis by (simp add: loop_valid_lastSendTime)
qed

lemma board0_simps:
  "lastSendTime board0 = 0"
  "net_attempts board0 = 0"
  "trace board0 = []"
  by (simp_all add: board0_def net_attempts_def)

subsection \<open>The threshold rules\<close>

text \<open>
  C1. On every pass whose sensor read is valid (neither value is not-a-number), the
  alarm indicator and the buzzer are on exactly when (temperature >= 30.0 or
  humidity >= 70.0) and lightLevel < 500: both status flags equal that condition, and
  the buzzer pin and the alarm LED pin are HIGH exactly then. The comparisons are
  non-strict on temperature and humidity and strict on the light level, so the
  boundary values 30.0, 70.0 and 499/500 fall as the condition says.
\<close>

theorem alarm_iff_thresholds:
  assumes "\<not> isnan (dht_temperature inp)" and "\<not> isnan (dht_humidity inp)"
  shows "((alarmLedStatus (fst (loop I inp s)) \<and> buzzerStatus (fst (loop I inp s)))
            = ((float_ge (dht_temperature inp) 30 \<or> float_ge (dht_humidity inp) 70)
                 \<and> adc_light inp < 500))
       \<and> alarmLedStatus (fst (loop I inp s)) = buzzerStatus (fst (loop I inp s))
       \<and> buzzerStatus (fst (loop I inp s))
            = ((float_ge (dht_temperature inp) 30 \<or> float_ge (dht_humidity inp) 70)
                 \<and> adc_light inp < 500)
       \<and> ((pins (snd (loop I inp s)) ALARM_LED_PIN = HIGH \<and> pins (snd (loop I inp s)) BUZZER_PIN = HIGH)
            = ((float_ge (dht_temperature inp) 30 \<or> float_ge (dht_humidity inp) 70)
                 \<and> adc_light inp < 500))
       \<and> pins (snd (loop I inp s)) ALARM_LED_PIN = pins (snd (loop I inp s)) BUZZER_PIN
       \<and> pins (snd (loop I inp s)) BUZZER_PIN
            = (if (float_ge (dht_temperature inp) 30 \<or> float_ge (dht_humidity inp) 70)
                 \<and> adc_light inp < 500 then HIGH else LOW)"
  using assms
  by (simp add: loop_valid_fst loop_valid_pins thresholds pin_defs)

theorem alarm_iff_thresholds_witness:
  "\<not> isnan (Fin 30) \<and> \<not> isnan (Fin 40)
   \<and> alarmLedStatus (fst (loop 10000
        \<lparr>dht_humidity = Fin 40, dht_temperature = Fin 30, adc_light = 499,
         millis_now = 6000, send_ok = True\<rparr> board0))
   \<and> buzzerStatus (fst (loop 10000
        \<lparr>dht_humidity = Fin 40, dht_temperature = Fin 30, adc_light = 499,
         millis_now = 6000, send_ok = True\<rparr> board0))
   \<and> \<not> buzzerStatus (fst (loop 10000
        \<lparr>dht_humidity = Fin 70, dht_temperature = Fin 30, adc_light = 500,
         millis_now = 6000, send_ok = True\<rparr> board0))
   \<and> pins (snd (loop 10000
        \<lparr>dht_humidity = Fin 70, dht_temperature = Fin 20, adc_light = 499,
         millis_now = 6000, send_ok = True\<rparr> board0)) BUZZER_PIN = HIGH"
  using alarm_iff_thresholds [of "\<lparr>dht_humidity = Fin 40, dht_temperature = Fin 30, adc_light = 499,
         millis_now = 6000, send_ok = True\<rparr>" 10000 board0]
    alarm_iff_thresholds [of "\<lparr>dht_humidity = Fin 70, dht_temperature = Fin 30, adc_light = 500,
         millis_now = 6000, send_ok = True\<rparr>" 10000 board0]
    alarm_iff_thresholds [of "\<lparr>dht_humidity = Fin 70, dht_temperature = Fin 20, adc_light = 499,
         millis_now = 6000, send_ok = True\<rparr>" 10000 board0]
  by simp

text \<open>
  C2. On every pass whose sensor read is valid, the fan flag and the fan indicator flag
  are both true when temperature >= 30.0 and both false when temperature < 30.0. One
  of the two comparisons holds for every temperature that is not not-a-number, so the
  third branch of the nested conditional is never taken on a valid read: \<open>controlFan\<close>
  writes the relay on every such pass, LOW (on) in the first case and HIGH in the
  second, and the fan LED the other way round.
\<close>

theorem fan_follows_temperature:
  assumes "\<not> isnan (dht_temperature inp)" and "\<not> isnan (dht_humidity inp)"
  shows "(float_ge (dht_temperature inp) 30 \<or> float_lt (dht_temperature inp) 30)
       \<and> fanStatus (fst (loop I inp s)) = float_ge (dht_temperature inp) 30
       \<and> fanLedStatus (fst (loop I inp s)) = float_ge (dht_temperature inp) 30
       \<and> fanStatus (fst (loop I inp s)) = (\<not> float_lt (dht_temperature inp) 30)
       \<and> fanLedStatus (fst (loop I inp s)) = (\<not> float_lt (dht_temperature inp) 30)
       \<and> fanStatus (fst (loop I inp s)) = fanLedStatus (fst (loop I inp s))
       \<and> pins (snd (loop I inp s)) FAN_RELAY_PIN
            = (if float_ge (dht_temperature inp) 30 then LOW else HIGH)
       \<and> pins (snd (loop I inp s)) FAN_LED_PIN
            = (if float_ge (dht_temperature inp) 30 then HIGH else LOW)
       \<and> DigitalWrite FAN_RELAY_PIN (if float_ge (dht_temperature inp) 30 then LOW else HIGH)
            \<in> set (tick_events I inp s)"
proof -
  have ev: "DigitalWrite FAN_RELAY_PIN (if float_ge (dht_temperature inp) 30 then LOW else HIGH)
            \<in> set (tick_events I inp s)"
    using assms
    by (simp add: tick_events_def loop_def readDHT22_valid Let_def collapse split_def float_lt_iff
      readLightLevel_def sendDataToServer_def emit_simps controlFan_simps controlLight_simps
      controlBuzzer_simps displayOnLCD_simps thresholds)
  show ?thesis
    using assms ev
    by (simp add: loop_valid_fst loop_valid_pins thresholds pin_defs float_lt_iff)
qed

theorem fan_follows_temperature_witness:
  "\<not> isnan (Fin 30) \<and> \<not> isnan (Fin 40)
   \<and> fanStatus (fst (loop 10000
        \<lparr>dht_humidity = Fin 40, dht_temperature = Fin 30, adc_light = 600,
         millis_now = 6000, send_ok = True\<rparr> board0))
   \<and> fanLedStatus (fst (loop 10000
        \<lparr>dht_humidity = Fin 40, dht_temperature = Fin 30, adc_light = 600,
         millis_now = 6000, send_ok = True\<rparr> board0))
   \<and> pins (snd (loop 10000
        \<lparr>dht_humidity = Fin 40, dht_temperature = Fin 30, adc_light = 600,
         millis_now = 6000, send_ok = True\<rparr> board0)) FAN_RELAY_PIN = LOW
   \<and> \<not> fanStatus (fst (loop 10000
        \<lparr>dht_humidity = Fin 40, dht_temperature = Fin 25, adc_light = 400,
         millis_now = 6000, send_ok = True\<rparr> board0))
   \<and> \<not> fanLedStatus (fst (loop 10000
        \<lparr>dht_humidity = Fin 40, dht_temperature = Fin 25, adc_light = 400,
         millis_now = 6000, send_ok = True\<rparr> board0))"
  using fan_follows_temperature [of "\<lparr>dht_humidity = Fin 40, dht_temperature = Fin 30, adc_light = 600,
         millis_now = 6000, send_ok = True\<rparr>" 10000 board0]
    fan_follows_temperature [of "\<lparr>dht_humidity = Fin 40, dht_temperature = Fin 25, adc_light = 400,
         millis_now = 6000, send_ok = True\<rparr>" 10000 board0]
  by simp

text \<open>
  C3. On every pass whose sensor read is valid, the light flag and the light indicator
  flag are both true if lightLevel < 500 and both false otherwise; the light relay is
  written LOW (on) and the light LED HIGH exactly in the first case.
\<close>

theorem light_follows_light_level:
  assumes "\<not> isnan (dht_temperature inp)" and "\<not> isnan (dht_humidity inp)"
  shows "lightStatus (fst (loop I inp s)) = (adc_light inp < 500)
       \<and> lightLedStatus (fst (loop I inp s)) = (adc_light inp < 500)
       \<and> lightStatus (fst (loop I inp s)) = lightLedStatus (fst (loop I inp s))
       \<and> pins (snd (loop I inp s)) LIGHT_RELAY_PIN = (if adc_light inp < 500 then LOW else HIGH)
       \<and> pins (snd (loop I inp s)) LIGHT_LED_PIN = (if adc_light inp < 500 then HIGH else LOW)"
  using assms
  by (simp add: loop_valid_fst loop_valid_pins thresholds pin_defs)

theorem light_follows_light_level_witness:
  "\<not> isnan (Fin 25) \<and> \<not> isnan (Fin 40)
   \<and> lightStatus (fst (loop 10000
        \<lparr>dht_humidity = Fin 40, dht_temperature = Fin 25, adc_light = 499,
         millis_now = 6000, send_ok = True\<rparr> board0))
   \<and> lightLedStatus (fst (loop 10000
        \<lparr>dht_humidity = Fin 40, dht_temperature = Fin 25, adc_light = 499,
         millis_now = 6000, send_ok = True\<rparr> board0))
   \<and> pins (snd (loop 10000
        \<lparr>dht_humidity = Fin 40, dht_temperature = Fin 25, adc_light = 499,
         millis_now = 6000, send_ok = True\<rparr> board0)) LIGHT_RELAY_PIN = LOW
   \<and> \<not> lightStatus (fst (loop 10000
        \<lparr>dht_humidity = Fin 40, dht_temperature = Fin 25, adc_light = 500,
         millis_now = 6000, send_ok = True\<rparr> board0))
   \<and> \<not> lightLedStatus (fst (loop 10000
        \<lparr>dht_humidity = Fin 40, dht_temperature = Fin 25, adc_light = 500,
         millis_now = 6000, send_ok = True\<rparr> board0))"
  using light_follows_light_level [of "\<lparr>dht_humidity = Fin 40, dht_temperature = Fin 25, adc_light = 499,
         millis_now = 6000, send_ok = True\<rparr>" 10000 board0]
    light_follows_light_level [of "\<lparr>dht_humidity = Fin 40, dht_temperature = Fin 25, adc_light = 500,
         millis_now = 6000, send_ok = True\<rparr>" 10000 board0]
  by simp

subsection \<open>A failed sensor read\<close>

text \<open>
  C4. On a pass whose sensor read is invalid (humidity or temperature is not-a-number)
  the controller writes no pin and calls \<open>sendDataToServer\<close> not at all: it prints the
  two error lines, shows the error text on the display and waits the read interval.
  Pins and upload cursor are as before, and the pass returns, so that a run goes on with
  the next pass from that board.
\<close>

theorem invalid_read_only_reports:
  assumes "isnan (dht_humidity inp) \<or> isnan (dht_temperature inp)"
  shows "tick_events I inp s =
           [SerialPrintln ''ERROR: Failed to read from DHT22 sensor!'',
            SerialPrintln ([CHR 0xE2, CHR 0x9A, CHR 0xA0]
              @ '' Sensor read failed. NOT sending data to server.''),
            LcdClear, LcdSetCursor 0 0, LcdPrint ''Sensor Error!'', LcdSetCursor 0 1,
            LcdPrint ''No data sent'', Delay 2000]
       \<and> filter is_write (tick_events I inp s) = []
       \<and> filter is_send (tick_events I inp s) = []
       \<and> pins (snd (loop I inp s)) = pins s
       \<and> lastSendTime (snd (loop I inp s)) = lastSendTime s
       \<and> trace (snd (loop I inp s)) = trace s @ tick_events I inp s
       \<and> run I (inp # inps) s = run I inps (s\<lparr>trace := trace s @ tick_events I inp s\<rparr>)"
  using assms
  by (simp add: tick_events_def loop_invalid)

theorem invalid_read_only_reports_witness:
  "(isnan (Fin 50) \<or> isnan NaN)
   \<and> filter is_write (tick_events 10000
        \<lparr>dht_humidity = Fin 50, dht_temperature = NaN, adc_light = 200,
         millis_now = 20000, send_ok = True\<rparr> board0) = []
   \<and> filter is_send (tick_events 10000
        \<lparr>dht_humidity = Fin 50, dht_temperature = NaN, adc_light = 200,
         millis_now = 20000, send_ok = True\<rparr> board0) = []
   \<and> pins (snd (loop 10000
        \<lparr>dht_humidity = Fin 50, dht_temperature = NaN, adc_light = 200,
         millis_now = 20000, send_ok = True\<rparr> board0)) = pins board0
   \<and> lastSendTime (snd (loop 10000
        \<lparr>dht_humidity = Fin 50, dht_temperature = NaN, adc_light = 200,
         millis_now = 20000, send_ok = True\<rparr> board0)) = 0"
  using invalid_read_only_reports [of "\<lparr>dht_humidity = Fin 50, dht_temperature = NaN, adc_light = 200,
         millis_now = 20000, send_ok = True\<rparr>" 10000 board0 "[]"]
  by (simp add: board0_def)

subsection \<open>The upload cursor\<close>

text \<open>
  C5, as the code has it. A pass calls \<open>sendDataToServer\<close> once if its sensor read is
  valid and now - lastSendTime >= DATA\_SEND\_INTERVAL (in 32-bit unsigned arithmetic),
  and not at all otherwise. Two successive passes less than the interval apart make at
  most one attempt between them; they make exactly one, in the first pass, when the
  first pass is due.
\<close>

theorem upload_rate_limit:
  "length (filter is_send (tick_events I inp s)) =
     (if \<not> isnan (dht_humidity inp) \<and> \<not> isnan (dht_temperature inp)
         \<and> I \<le> millis_now inp - lastSendTime s then 1 else 0)
   \<and> (millis_now inp2 - millis_now inp < I \<longrightarrow>
        net_attempts (run I [inp, inp2] s) \<le> net_attempts s + 1)
   \<and> (millis_now inp2 - millis_now inp < I
        \<and> \<not> isnan (dht_humidity inp) \<and> \<not> isnan (dht_temperature inp)
        \<and> I \<le> millis_now inp - lastSendTime s \<longrightarrow>
        net_attempts (run I [inp, inp2] s) = net_attempts s + 1
        \<and> filter is_send (tick_events I inp2 (snd (loop I inp s))) = [])"
proof -
  have one: "length (filter is_send (tick_events I inp s)) =
     (if \<not> isnan (dht_humidity inp) \<and> \<not> isnan (dht_temperature inp)
         \<and> I \<le> millis_now inp - lastSendTime s then 1 else 0)"
    by (rule loop_sends)
  have two: "net_attempts (run I [inp, inp2] s) \<le> net_attempts s + 1"
    if "millis_now inp2 - millis_now inp < I"
    using that by (auto simp add: net_attempts_loop loop_sends loop_lastSendTime not_le)
  have three: "net_attempts (run I [inp, inp2] s) = net_attempts s + 1
        \<and> filter is_send (tick_events I inp2 (snd (loop I inp s))) = []"
    if "millis_now inp2 - millis_now inp < I"
      and "\<not> isnan (dht_humidity inp)" and "\<not> isnan (dht_temperature inp)"
      and "I \<le> millis_now inp - lastSendTime s"
  proof -
    have "filter is_send (tick_events I inp2 (snd (loop I inp s))) = []"
      using that by (simp add: loop_no_send loop_lastSendTime)
    then show ?thesis using that by (simp add: net_attempts_loop loop_sends)
  qed
  show ?thesis using one two three by blast
qed

theorem upload_rate_limit_witness:
  "length (filter is_send (tick_events 5000
      \<lparr>dht_humidity = Fin 40, dht_temperature = Fin 25, adc_light = 400,
       millis_now = 6000, send_ok = True\<rparr> board0)) = 1
   \<and> (6500 :: 32 word) - 6000 < 5000
   \<and> \<not> isnan (Fin 40) \<and> \<not> isnan (Fin 25)
   \<and> (5000 :: 32 word) \<le> 6000 - lastSendTime board0
   \<and> net_attempts (run 5000
        [\<lparr>dht_humidity = Fin 40, dht_temperature = Fin 25, adc_light = 400,
          millis_now = 6000, send_ok = True\<rparr>,
         \<lparr>dht_humidity = Fin 40, dht_temperature = Fin 25, adc_light = 400,
          millis_now = 6500, send_ok = True\<rparr>] board0) = 1"
  using upload_rate_limit [of 5000 "\<lparr>dht_humidity = Fin 40, dht_temperature = Fin 25,
       adc_light = 400, millis_now = 6000, send_ok = True\<rparr>" board0
       "\<lparr>dht_humidity = Fin 40, dht_temperature = Fin 25, adc_light = 400,
          millis_now = 6500, send_ok = True\<rparr>"]
  by (simp add: board0_simps)

text \<open>
  The claim C5 as it is written asks for exactly one attempt from any two calls less
  than the interval apart. With the cursor at 0 and an interval of 10000 ms, the passes
  at 6000 ms and 8000 ms both find the interval not elapsed and neither sends. With an
  interval of 5000 ms the pass at 6000 ms sends, and the two passes after it, at 8000 ms
  and 10000 ms, make no attempt between them.
\<close>

theorem two_calls_one_attempt_counterexample:
  "(8000 :: 32 word) - 6000 < 10000
   \<and> \<not> isnan (Fin 40) \<and> \<not> isnan (Fin 25)
   \<and> net_attempts board0 = 0
   \<and> net_attempts (run 10000
        [\<lparr>dht_humidity = Fin 40, dht_temperature = Fin 25, adc_light = 400,
          millis_now = 6000, send_ok = True\<rparr>,
         \<lparr>dht_humidity = Fin 40, dht_temperature = Fin 25, adc_light = 400,
          millis_now = 8000, send_ok = True\<rparr>] board0) = 0
   \<and> (10000 :: 32 word) - 8000 < 5000
   \<and> net_attempts (run 5000
        [\<lparr>dht_humidity = Fin 40, dht_temperature = Fin 25, adc_light = 400,
          millis_now = 8000, send_ok = True\<rparr>,
         \<lparr>dht_humidity = Fin 40, dht_temperature = Fin 25, adc_light = 400,
          millis_now = 10000, send_ok = True\<rparr>]
        (run 5000
          [\<lparr>dht_humidity = Fin 40, dht_temperature = Fin 25, adc_light = 400,
            millis_now = 6000, send_ok = True\<rparr>] board0))
       = net_attempts (run 5000
          [\<lparr>dht_humidity = Fin 40, dht_temperature = Fin 25, adc_light = 400,
            millis_now = 6000, send_ok = True\<rparr>] board0)"
  by (simp add: net_attempts_loop loop_sends loop_lastSendTime board0_simps)

text \<open>
  C6. A pass that attempts a transmission sets lastSendTime to the time it read from
  \<open>millis\<close>, whatever \<open>sendDataToServer\<close> answers; a pass that makes no attempt (sensor
  read invalid, or interval not elapsed) leaves lastSendTime as it was. After an
  attempt, failed or not, a pass less than the interval later makes no attempt and
  leaves the cursor at the time of the first.
\<close>

theorem cursor_advances_on_attempt:
  "lastSendTime (snd (loop I (inp\<lparr>send_ok := ok\<rparr>) s)) =
     (if \<not> isnan (dht_humidity inp) \<and> \<not> isnan (dht_temperature inp)
         \<and> I \<le> millis_now inp - lastSendTime s then millis_now inp else lastSendTime s)
   \<and> length (filter is_send (tick_events I (inp\<lparr>send_ok := ok\<rparr>) s)) =
     (if \<not> isnan (dht_humidity inp) \<and> \<not> isnan (dht_temperature inp)
         \<and> I \<le> millis_now inp - lastSendTime s then 1 else 0)
   \<and> (\<not> isnan (dht_humidity inp) \<and> \<not> isnan (dht_temperature inp)
        \<and> I \<le> millis_now inp - lastSendTime s
        \<and> millis_now inp2 - millis_now inp < I \<longrightarrow>
        filter is_send (tick_events I inp2 (snd (loop I (inp\<lparr>send_ok := ok\<rparr>) s))) = []
        \<and> lastSendTime (snd (loop I inp2 (snd (loop I (inp\<lparr>send_ok := ok\<rparr>) s))))
            = millis_now inp)"
proof -
  let ?s1 = "snd (loop I (inp\<lparr>send_ok := ok\<rparr>) s)"
  have cursor: "lastSendTime ?s1 =
     (if \<not> isnan (dht_humidity inp) \<and> \<not> isnan (dht_temperature inp)
         \<and> I \<le> millis_now inp - lastSendTime s then millis_now inp else lastSendTime s)"
    by (simp add: loop_lastSendTime)
  have attempts: "length (filter is_send (tick_events I (inp\<lparr>send_ok := ok\<rparr>) s)) =
     (if \<not> isnan (dht_humidity inp) \<and> \<not> isnan (dht_temperature inp)
         \<and> I \<le> millis_now inp - lastSendTime s then 1 else 0)"
    by (simp add: loop_sends)
  have later: "filter is_send (tick_events I inp2 ?s1) = []
        \<and> lastSendTime (snd (loop I inp2 ?s1)) = millis_now inp"
    if "\<not> isnan (dht_humidity inp)" "\<not> isnan (dht_temperature inp)"
      "I \<le> millis_now inp - lastSendTime s" "millis_now inp2 - millis_now inp < I"
  proof -
    have c: "lastSendTime ?s1 = millis_now inp"
      using that cursor by simp
    have "\<not> I \<le> millis_now inp2 - millis_now inp"
      using that(4) by (simp add: not_le)
    then show ?thesis
      by (simp add: loop_no_send [of I inp2 ?s1] loop_lastSendTime [of I inp2 ?s1] c that(4))
  qed
  show ?thesis using cursor attempts later by blast
qed

theorem cursor_advances_on_attempt_witness:
  "lastSendTime (snd (loop 5000
      \<lparr>dht_humidity = Fin 40, dht_temperature = Fin 25, adc_light = 400,
       millis_now = 6000, send_ok = False\<rparr> board0)) = 6000
   \<and> length (filter is_send (tick_events 5000
      \<lparr>dht_humidity = Fin 40, dht_temperature = Fin 25, adc_light = 400,
       millis_now = 6000, send_ok = False\<rparr> board0)) = 1
   \<and> \<not> isnan (Fin 40) \<and> \<not> isnan (Fin 25)
   \<and> (5000 :: 32 word) \<le> 6000 - lastSendTime board0
   \<and> (8000 :: 32 word) - 6000 < 5000
   \<and> filter is_send (tick_events 5000
        \<lparr>dht_humidity = Fin 40, dht_temperature = Fin 25, adc_light = 400,
         millis_now = 8000, send_ok = True\<rparr>
        (snd (loop 5000
          \<lparr>dht_humidity = Fin 40, dht_temperature = Fin 25, adc_light = 400,
           millis_now = 6000, send_ok = False\<rparr> board0))) = []"
  using cursor_advances_on_attempt [where I = 5000 and ok = False and s = board0
       and inp = "\<lparr>dht_humidity = Fin 40, dht_temperature = Fin 25,
         adc_light = 400, millis_now = 6000, send_ok = False\<rparr>"
       and ?inp2.0 = "\<lparr>dht_humidity = Fin 40, dht_temperature = Fin 25, adc_light = 400,
         millis_now = 8000, send_ok = True\<rparr>"]
  by (simp add: board0_simps)

subsection \<open>The actuator driver\<close>

text \<open>
  C7. The driver keeps the polarity of the hardware. For the fan and the light, true
  (on) is written to the relay line as LOW and false as HIGH; the indicator LEDs and
  the buzzer are written non-inverted, true as HIGH. Each of the three control
  functions writes its two pins and then prints one line on the serial port, the name
  of the actuator followed by ON for true and OFF for false.
\<close>

theorem actuator_polarity:
  "pins (controlFan state s) FAN_RELAY_PIN = (if state then LOW else HIGH)
   \<and> pins (controlFan state s) FAN_LED_PIN = (if state then HIGH else LOW)
   \<and> pins (controlLight state s) LIGHT_RELAY_PIN = (if state then LOW else HIGH)
   \<and> pins (controlLight state s) LIGHT_LED_PIN = (if state then HIGH else LOW)
   \<and> pins (controlBuzzer state s) BUZZER_PIN = (if state then HIGH else LOW)
   \<and> pins (controlBuzzer state s) ALARM_LED_PIN = (if state then HIGH else LOW)
   \<and> pins (setFanLED state s) FAN_LED_PIN = (if state then HIGH else LOW)
   \<and> pins (setLightLED state s) LIGHT_LED_PIN = (if state then HIGH else LOW)
   \<and> pins (setAlarmLED state s) ALARM_LED_PIN = (if state then HIGH else LOW)
   \<and> trace (controlFan state s) = trace s @
        [DigitalWrite 26 (if state then LOW else HIGH),
         DigitalWrite 32 (if state then HIGH else LOW),
         SerialPrint ''FAN: '', SerialPrintln (if state then ''ON'' else ''OFF'')]
   \<and> trace (controlLight state s) = trace s @
        [DigitalWrite 27 (if state then LOW else HIGH),
         DigitalWrite 33 (if state then HIGH else LOW),
         SerialPrint ''LIGHT: '', SerialPrintln (if state then ''ON'' else ''OFF'')]
   \<and> trace (controlBuzzer state s) = trace s @
        [DigitalWrite 25 (if state then HIGH else LOW),
         DigitalWrite 14 (if state then HIGH else LOW),
         SerialPrint ''BUZZER: '', SerialPrintln (if state then ''ON'' else ''OFF'')]
   \<and> filter is_println (drop (length (trace s)) (trace (controlFan state s)))
        = [SerialPrintln (if state then ''ON'' else ''OFF'')]
   \<and> filter is_println (drop (length (trace s)) (trace (controlLight state s)))
        = [SerialPrintln (if state then ''ON'' else ''OFF'')]
   \<and> filter is_println (drop (length (trace s)) (trace (controlBuzzer state s)))
        = [SerialPrintln (if state then ''ON'' else ''OFF'')]"
  by (simp add: controlFan_simps controlLight_simps controlBuzzer_simps pin_defs
      setFanLED_def setLightLED_def setAlarmLED_def digitalWrite_simps)

lemma control_all_pins:
  "pins (controlBuzzer a (controlLight l (controlFan f s))) =
     (pins s)(FAN_RELAY_PIN := (if f then LOW else HIGH), FAN_LED_PIN := (if f then HIGH else LOW),
              LIGHT_RELAY_PIN := (if l then LOW else HIGH), LIGHT_LED_PIN := (if l then HIGH else LOW),
              BUZZER_PIN := (if a then HIGH else LOW), ALARM_LED_PIN := (if a then HIGH else LOW))"
  by (simp add: controlFan_simps controlLight_simps controlBuzzer_simps)

lemma loop_pins_idem:
  "pins (snd (loop I' (inp\<lparr>millis_now := m, send_ok := k\<rparr>) (snd (loop I inp s))))
     = pins (snd (loop I inp s))"
proof (cases "isnan (dht_humidity inp) \<or> isnan (dht_temperature inp)")
  case True
  then show ?thesis by (auto simp add: loop_invalid)
next
  case False
  then show ?thesis by (simp add: loop_valid_pins fun_eq_iff)
qed

text \<open>
  C8. Driving the actuators twice with the same values leaves the pins as driving them
  once does, for each control function and for the three in the order in which \<open>loop\<close>
  calls them; the cursor is untouched, and the trace grows by the same writes and log
  lines again and by nothing else. The same holds for two passes of \<open>loop\<close> on the same
  sensor values.
\<close>

theorem apply_twice_same_outputs:
  "pins (controlFan f (controlFan f s)) = pins (controlFan f s)
   \<and> pins (controlLight l (controlLight l s)) = pins (controlLight l s)
   \<and> pins (controlBuzzer a (controlBuzzer a s)) = pins (controlBuzzer a s)
   \<and> pins (controlBuzzer a (controlLight l (controlFan f
        (controlBuzzer a (controlLight l (controlFan f s))))))
       = pins (controlBuzzer a (controlLight l (controlFan f s)))
   \<and> lastSendTime (controlBuzzer a (controlLight l (controlFan f
        (controlBuzzer a (controlLight l (controlFan f s))))))
       = lastSendTime (controlBuzzer a (controlLight l (controlFan f s)))
   \<and> trace (controlBuzzer a (controlLight l (controlFan f
        (controlBuzzer a (controlLight l (controlFan f s))))))
       = trace (controlBuzzer a (controlLight l (controlFan f s)))
         @ drop (length (trace s)) (trace (controlBuzzer a (controlLight l (controlFan f s))))
   \<and> pins (snd (loop I' (inp\<lparr>millis_now := m, send_ok := k\<rparr>) (snd (loop I inp s))))
       = pins (snd (loop I inp s))"
proof -
  have single: "pins (controlFan f (controlFan f s)) = pins (controlFan f s)
   \<and> pins (controlLight l (controlLight l s)) = pins (controlLight l s)
   \<and> pins (controlBuzzer a (controlBuzzer a s)) = pins (controlBuzzer a s)"
    by (simp add: controlFan_simps controlLight_simps controlBuzzer_simps fun_eq_iff)
  have all: "pins (controlBuzzer a (controlLight l (controlFan f
        (controlBuzzer a (controlLight l (controlFan f s))))))
       = pins (controlBuzzer a (controlLight l (controlFan f s)))"
    by (simp add: control_all_pins fun_eq_iff)
  have rest: "lastSendTime (controlBuzzer a (controlLight l (controlFan f
        (controlBuzzer a (controlLight l (controlFan f s))))))
       = lastSendTime (controlBuzzer a (controlLight l (controlFan f s)))
   \<and> trace (controlBuzzer a (controlLight l (controlFan f
        (controlBuzzer a (controlLight l (controlFan f s))))))
       = trace (controlBuzzer a (controlLight l (controlFan f s)))
         @ drop (length (trace s)) (trace (controlBuzzer a (controlLight l (controlFan f s))))"
    by (simp add: controlFan_simps controlLight_simps controlBuzzer_simps)
  show ?thesis using single all rest loop_pins_idem by blast
qed

section \<open>Properties of the ingestion service\<close>

subsection \<open>The stored row\<close>

text \<open>
  The properties of \<open>info\<close> as a map: the generated id, overridden by the properties
  of the request body (a later one of the same name over an earlier one), overridden by
  the creation time.
\<close>

lemma map_of_set_prop: "map_of (set_prop k v ps) = (map_of ps)(k \<mapsto> v)"
  by (induction ps) (auto simp add: fun_eq_iff)

lemma map_of_spread: "map_of (spread src obj) = map_of obj ++ map_of (rev src)"
proof (induction src arbitrary: obj)
  case Nil
  then show ?case by simp
next
  case (Cons p src)
  obtain k v where p: "p = (k, v)" by (cases p)
  show ?case
    by (simp add: p Cons.IH map_of_set_prop fun_eq_iff map_add_def split: option.splits)
qed

lemma map_of_info:
  "map_of (info uuid body now) =
     ([''id'' \<mapsto> JStr uuid] ++ map_of (rev body))(''created_at'' \<mapsto> JStr now)"
  by (simp add: info_def map_of_set_prop map_of_spread)

lemma info_created_at: "map_of (info uuid body now) ''created_at'' = Some (JStr now)"
  by (simp add: map_of_info)

lemma info_id_from_body:
  "map_of (rev body) ''id'' = Some v \<Longrightarrow> map_of (info uuid body now) ''id'' = Some v"
  by (simp add: map_of_info)

lemma info_id_from_server:
  "map_of (rev body) ''id'' = None \<Longrightarrow> map_of (info uuid body now) ''id'' = Some (JStr uuid)"
  by (simp add: map_of_info map_add_def)

text \<open>
  C9. The claim is that identifier and creation timestamp of the stored row come from
  the server and never from the request body. For \<open>created_at\<close> this is so
  (\<open>info_created_at\<close>): it is written after the body is spread. The \<open>id\<close> is written
  before the body is spread, so a body that has an \<open>id\<close> replaces the generated one
  (\<open>info_id_from_body\<close>). The row built for the body
  \<open>{"id": "chosen-by-client", "temperature": 25}\<close>:
\<close>

theorem client_id_replaces_server_id:
  "info ''3b241101-e2bb-4255-8caf-4136c566a962''
      [(''id'', JStr ''chosen-by-client''), (''temperature'', JNum 25)]
      ''2026-01-01T00:00:00.000Z''
   = [(''id'', JStr ''chosen-by-client''), (''temperature'', JNum 25),
      (''created_at'', JStr ''2026-01-01T00:00:00.000Z'')]"
  by (simp add: info_def)

subsection \<open>Failures of the data store\<close>

text \<open>
  When the insert fails, by an \<open>error\<close> in its result or by a rejection, the handler
  of POST /sensor-data answers with status 500 and \<open>{ error: <message> }\<close>.
\<close>

lemma post_failure_responds_500:
  assumes "insert_row (info uuid body now) = RejectedWith e
           \<or> (\<exists>r. insert_row (info uuid body now) = Fulfilled r \<and> sb_error r = Some e)"
  shows "response (post_sensor_data uuid now insert_row body)
           = \<lparr>status_code = 500, sent = Some (JObj [(''error'', JStr (err_message e))])\<rparr>
         \<and> rejected (post_sensor_data uuid now insert_row body) = None"
  using assms
  by (auto simp add: post_sensor_data_def Let_def catch_clause_def resolve_def res_status_def
      res_json_def res0_def)

text \<open>
  C10. The claim is that both endpoints answer a failure of the data store with status
  500 and a JSON object that carries the error message. POST /sensor-data does
  (\<open>post_failure_responds_500\<close>). The catch clause of GET /data names its parameter
  \<open>error\<close> and reads \<open>err\<close>, which nothing binds there: \<open>res.status(500)\<close> has set the
  status when the read of \<open>err\<close> raises a ReferenceError, \<open>res.json\<close> is never called,
  and the promise of the handler is rejected. At a failed query:
\<close>

theorem get_data_failure_sends_nothing:
  "get_data (Fulfilled \<lparr>sb_data = JNull,
       sb_error = Some (JsError ''PostgrestError'' ''permission denied for table data'')\<rparr>)
   = \<lparr>response = \<lparr>status_code = 500, sent = None\<rparr>,
      console = [LogError (JsError ''PostgrestError'' ''permission denied for table data'')],
      rejected = Some (JsError ''ReferenceError'' ''err is not defined'')\<rparr>"
  by (simp add: get_data_def Let_def catch_clause_def resolve_def res_status_def
      res_json_def res0_def handler_scope_def module_scope_def)

text \<open>The same for every failure of the query.\<close>

lemma get_data_failure:
  assumes "selected = RejectedWith e
           \<or> (\<exists>r. selected = Fulfilled r \<and> sb_error r = Some e)"
  shows "sent (response (get_data selected)) = None
         \<and> rejected (get_data selected) = Some (JsError ''ReferenceError'' ''err is not defined'')"
  using assms
  by (auto simp add: get_data_def Let_def catch_clause_def resolve_def res_status_def
      res_json_def res0_def handler_scope_def module_scope_def)

end
